theory Spec2Isabelle
  imports Main
begin

section \<open>Python values used by \<open>cuda_setup.py\<close>\<close>

text \<open>
  Python strings are modelled as \<open>string\<close>, Python's unbounded integers as \<open>int\<close>,
  \<open>os.environ\<close> as a map from variable names to values. An exception is a value of
  \<open>py_error\<close>; a computation that may raise returns \<open>py_error + 'a\<close>, with \<open>Inl\<close> the
  exception that propagates.
\<close>

datatype py_error =
    IndexError
  | ValueError
  | KeyError string
  | NameError string
  | AssertionError
  | DistutilsPlatformError
  | OtherError string

type_synonym environ = "string \<rightharpoonup> string"

text \<open>\<open>s.split(sep)\<close> for a one-character separator: never an empty list.\<close>

fun py_split :: "char \<Rightarrow> string \<Rightarrow> string list" where
  "py_split sep [] = [[]]"
| "py_split sep (c # cs) =
     (if c = sep then [] # py_split sep cs
      else (case py_split sep cs of
              [] \<Rightarrow> [[c]]
            | w # ws \<Rightarrow> (c # w) # ws))"

text \<open>\<open>s.startswith(p)\<close>.\<close>

fun startswith :: "string \<Rightarrow> string \<Rightarrow> bool" where
  "startswith s [] = True"
| "startswith [] (p # ps) = False"
| "startswith (c # cs) (p # ps) = (c = p \<and> startswith cs ps)"

text \<open>\<open>sub in s\<close> on strings: \<open>sub\<close> occurs in \<open>s\<close> as a contiguous substring.\<close>

fun py_in :: "string \<Rightarrow> string \<Rightarrow> bool" where
  "py_in sub [] = (sub = [])"
| "py_in sub (c # cs) = (startswith (c # cs) sub \<or> py_in sub cs)"

text \<open>\<open>xs[i]\<close> for a non-negative literal index \<open>i\<close>: \<open>IndexError\<close> out of range.\<close>

definition py_index :: "'a list \<Rightarrow> nat \<Rightarrow> py_error + 'a" where
  "py_index xs i = (if i < length xs then Inr (xs ! i) else Inl IndexError)"

section \<open>ArchitectureResolver: \<open>get_cuda_sm_list\<close>, \<open>get_cuda_compute\<close>, \<open>get_cuda_arch\<close>\<close>

text \<open>
  \<open>filter_list\<close> is the list the source builds with \<open>+=\<close> in the \<open>else\<close> branch of
  \<open>get_cuda_sm_list\<close> (lines 42 to 53).
\<close>

definition filter_list :: "int \<Rightarrow> string list" where
  "filter_list cuda_ver =
     (if cuda_ver \<ge> 110 then
        [''30''] @ (if cuda_ver = 110 then [''86''] else [])
      else
        [''80'', ''86'']
        @ (if cuda_ver < 100 then [''75''] else [])
        @ (if cuda_ver < 90 then [''70''] else [])
        @ (if cuda_ver < 80 then [''60'', ''61''] else []))"

definition get_cuda_sm_list :: "environ \<Rightarrow> int \<Rightarrow> string list" where
  "get_cuda_sm_list env cuda_ver =
     (case env ''CUDA_SM_LIST'' of
        Some v \<Rightarrow> py_split (CHR '','') v
      | None \<Rightarrow>
          filter (\<lambda>sm. sm \<notin> set (filter_list cuda_ver))
            [''30'', ''52'', ''60'', ''61'', ''70'', ''75'', ''80'', ''86''])"

definition get_cuda_compute :: "environ \<Rightarrow> int \<Rightarrow> string" where
  "get_cuda_compute env cuda_ver =
     (case env ''CUDA_COMPUTE'' of
        Some v \<Rightarrow> v
      | None \<Rightarrow>
          if 70 \<le> cuda_ver \<and> cuda_ver < 80 then ''52''
          else if 80 \<le> cuda_ver \<and> cuda_ver < 90 then ''61''
          else if 90 \<le> cuda_ver \<and> cuda_ver < 100 then ''70''
          else if 100 \<le> cuda_ver \<and> cuda_ver < 110 then ''75''
          else if cuda_ver = 110 then ''80''
          else if 111 \<le> cuda_ver \<and> cuda_ver < 115 then ''86''
          else if 115 \<le> cuda_ver \<and> cuda_ver < 120 then ''89''
          else if 120 \<le> cuda_ver \<and> cuda_ver \<le> 128 then ''90''
          else ''90'')"

definition get_cuda_arch :: "environ \<Rightarrow> int \<Rightarrow> string" where
  "get_cuda_arch env cuda_ver =
     (case env ''CUDA_ARCH'' of
        Some v \<Rightarrow> v
      | None \<Rightarrow>
          if 70 \<le> cuda_ver \<and> cuda_ver < 92 then ''30''
          else if 92 \<le> cuda_ver \<and> cuda_ver < 110 then ''50''
          else if cuda_ver = 110 then ''52''
          else if 111 \<le> cuda_ver \<and> cuda_ver < 120 then ''80''
          else if 120 \<le> cuda_ver \<and> cuda_ver \<le> 128 then ''90''
          else ''90'')"

text \<open>
  The specification's wording of the exclusion set of \<open>smList\<close>, as a set, to be compared
  with the list the source filters by.
\<close>

definition spec_base_sm_list :: "string list" where
  "spec_base_sm_list = [''30'', ''52'', ''60'', ''61'', ''70'', ''75'', ''80'', ''86'']"

definition spec_exclusion_set :: "int \<Rightarrow> string set" where
  "spec_exclusion_set version =
     (if version \<ge> 110 then
        {''30''} \<union> (if version = 110 then {''86''} else {})
      else
        {''80'', ''86''}
        \<union> (if version < 100 then {''75''} else {})
        \<union> (if version < 90 then {''70''} else {})
        \<union> (if version < 80 then {''60'', ''61''} else {}))"

section \<open>The host: environment, platform and \<open>os.path\<close>\<close>

text \<open>
  Everything \<open>cuda_setup.py\<close> reads from the machine it runs on: \<open>os.environ\<close>,
  \<open>sys.platform\<close>, \<open>os.pathsep\<close> and the functions of \<open>os.path\<close> (which are those of
  \<open>posixpath\<close> or \<open>ntpath\<close>, depending on the platform, and for \<open>exists\<close> and
  \<open>realpath\<close> depend on the file system). \<open>path_join a ps\<close> is \<open>os.path.join(a, *ps)\<close>.
\<close>

record host =
  environ :: environ
  platform :: string
  pathsep :: char
  path_join :: "string \<Rightarrow> string list \<Rightarrow> string"
  path_basename :: "string \<Rightarrow> string"
  path_dirname :: "string \<Rightarrow> string"
  path_realpath :: "string \<Rightarrow> string"
  path_abspath :: "string \<Rightarrow> string"
  path_exists :: "string \<Rightarrow> bool"
  path_splitext :: "string \<Rightarrow> string \<times> string"

section \<open>\<open>int(s)\<close> on a string\<close>

text \<open>
  Python's \<open>int\<close> on a string, base ten, for ASCII text: surrounding whitespace is
  stripped, one sign is allowed, then digits, with single underscores between digits;
  anything else raises \<open>ValueError\<close>.
\<close>

definition is_space :: "char \<Rightarrow> bool" where
  "is_space c =
     (c \<in> {CHR 0x20, CHR 0x09, CHR 0x0A, CHR 0x0B, CHR 0x0C, CHR 0x0D,
            CHR 0x1C, CHR 0x1D, CHR 0x1E, CHR 0x1F})"

definition is_digit :: "char \<Rightarrow> bool" where
  "is_digit c = (48 \<le> (of_char c :: nat) \<and> (of_char c :: nat) \<le> 57)"

definition digit_val :: "char \<Rightarrow> int" where
  "digit_val c = int (of_char c) - 48"

definition py_strip :: "string \<Rightarrow> string" where
  "py_strip s = rev (dropWhile is_space (rev (dropWhile is_space s)))"

text \<open>\<open>digits_from cs acc\<close>: the rest of a numeral whose last character was a digit.\<close>

fun digits_from :: "string \<Rightarrow> int \<Rightarrow> int option" where
  "digits_from [] acc = Some acc"
| "digits_from [c] acc = (if is_digit c then Some (10 * acc + digit_val c) else None)"
| "digits_from (c # d # ds) acc =
     (if is_digit c then digits_from (d # ds) (10 * acc + digit_val c)
      else if c = CHR ''_'' \<and> is_digit d then digits_from ds (10 * acc + digit_val d)
      else None)"

definition unsigned_int :: "string \<Rightarrow> py_error + int" where
  "unsigned_int s =
     (case s of
        [] \<Rightarrow> Inl ValueError
      | c # cs \<Rightarrow>
          if is_digit c then
            (case digits_from cs (digit_val c) of
               Some n \<Rightarrow> Inr n
             | None \<Rightarrow> Inl ValueError)
          else Inl ValueError)"

definition py_int :: "string \<Rightarrow> py_error + int" where
  "py_int s =
     (case py_strip s of
        [] \<Rightarrow> Inl ValueError
      | c # cs \<Rightarrow>
          if c = CHR ''-'' then
            (case unsigned_int cs of Inl e \<Rightarrow> Inl e | Inr n \<Rightarrow> Inr (- n))
          else if c = CHR ''+'' then unsigned_int cs
          else unsigned_int (c # cs))"

section \<open>ToolchainLocator: \<open>find_in_path\<close> and \<open>locate_cuda\<close>\<close>

text \<open>The loop of \<open>find_in_path\<close> over the directories of the search path.\<close>

fun find_in_dirs :: "host \<Rightarrow> string \<Rightarrow> string list \<Rightarrow> string option" where
  "find_in_dirs os name [] = None"
| "find_in_dirs os name (dir # dirs) =
     (let binpath = path_join os dir [name] in
      if path_exists os binpath then Some (path_abspath os binpath)
      else find_in_dirs os name dirs)"

definition find_in_path :: "host \<Rightarrow> string \<Rightarrow> string \<Rightarrow> string option" where
  "find_in_path os name path = find_in_dirs os name (py_split (pathsep os) path)"

text \<open>
  What \<open>locate_cuda\<close> writes: the two \<open>print\<close> calls (lines 146 and 154) and the two
  \<open>logging.warning\<close> calls (lines 130 and 170), each with the values it formats.
\<close>

datatype event =
    Print_cuda_ver int int
  | Print_nvcc_post_args "string list"
  | Warning_nvcc_not_located
  | Warning_path_not_located string string

text \<open>
  The dictionary \<open>cudaconfig\<close>: its four paths, in insertion order, and \<open>post_args\<close>, which
  is added after validation (line 173). The key \<open>include\<close> is the field \<open>include_dir\<close>.
\<close>

record cuda_paths =
  home :: string
  nvcc :: string
  include_dir :: string
  lib64 :: string

record cudaconfig = cuda_paths +
  post_args :: "string list"

definition items :: "'a cuda_paths_scheme \<Rightarrow> (string \<times> string) list" where
  "items c = [(''home'', home c), (''nvcc'', nvcc c), (''include'', include_dir c),
              (''lib64'', lib64 c)]"

text \<open>Lines 118 to 125: the first of the three variables that is set gives \<open>home\<close>.\<close>

fun home_from_env :: "environ \<Rightarrow> string list \<Rightarrow> string option" where
  "home_from_env env [] = None"
| "home_from_env env (env_name # rest) =
     (case env env_name of
        None \<Rightarrow> home_from_env env rest
      | Some v \<Rightarrow> Some v)"

text \<open>
  Lines 118 to 134: \<open>home\<close> and \<open>nvcc\<close>, or \<open>None\<close> when the binary is not on the search
  path; \<open>os.environ['PATH']\<close> raises \<open>KeyError\<close> when \<open>PATH\<close> is unset.
\<close>

definition discover :: "host \<Rightarrow> string \<Rightarrow> py_error + (string \<times> string) option" where
  "discover os nvcc_bin =
     (case home_from_env (environ os) [''CUDA_PATH'', ''CUDAHOME'', ''CUDA_HOME''] of
        Some h \<Rightarrow> Inr (Some (h, path_join os h [''bin'', nvcc_bin]))
      | None \<Rightarrow>
          (case environ os ''PATH'' of
             None \<Rightarrow> Inl (KeyError ''PATH'')
           | Some path \<Rightarrow>
               (case find_in_path os nvcc_bin path of
                  None \<Rightarrow> Inr None
                | Some nv \<Rightarrow> Inr (Some (path_dirname os (path_dirname os nv), nv)))))"

text \<open>
  Lines 139 to 142: the \<open>try\<close> takes the second hyphen-separated segment of the base name;
  the bare \<open>except\<close> catches the \<open>IndexError\<close> of a name without a hyphen.
\<close>

definition cuda_ver_fields :: "host \<Rightarrow> string \<Rightarrow> string list" where
  "cuda_ver_fields os h =
     (let base = path_basename os (path_realpath os h) in
      case py_index (py_split (CHR ''-'') base) 1 of
        Inr seg \<Rightarrow> py_split (CHR ''.'') seg
      | Inl e \<Rightarrow> py_split (CHR ''.'') base)"

text \<open>Line 143, outside the \<open>try\<close>: \<open>int(cuda_ver[0]), int(cuda_ver[1])\<close>, left to right.\<close>

definition major_minor :: "string list \<Rightarrow> py_error + int \<times> int" where
  "major_minor cuda_ver =
     (case py_index cuda_ver 0 of
        Inl e \<Rightarrow> Inl e
      | Inr a \<Rightarrow>
          (case py_int a of
             Inl e \<Rightarrow> Inl e
           | Inr major \<Rightarrow>
               (case py_index cuda_ver 1 of
                  Inl e \<Rightarrow> Inl e
                | Inr b \<Rightarrow>
                    (case py_int b of
                       Inl e \<Rightarrow> Inl e
                     | Inr minor \<Rightarrow> Inr (major, minor)))))"

text \<open>Lines 150 to 153: the flags assembled from the resolver's three results.\<close>

definition assemble_post_args :: "string \<Rightarrow> string list \<Rightarrow> string \<Rightarrow> string list" where
  "assemble_post_args arch sm_list compute =
     [''-arch=sm_'' @ arch]
     @ map (\<lambda>sm. ''-gencode=arch=compute_'' @ sm @ '',code=sm_'' @ sm) sm_list
     @ [''-gencode=arch=compute_'' @ compute @ '',code=compute_'' @ compute,
        ''--ptxas-options=-v'', ''-O2'']"

text \<open>A string literal of the source written between single quotes, as \<open>"'-fPIC'"\<close>.\<close>

definition single_quoted :: "string \<Rightarrow> string" where
  "single_quoted s = [CHR 0x27] @ s @ [CHR 0x27]"

text \<open>Lines 158 to 167: the flags appended for the platform.\<close>

definition platform_post_args :: "bool \<Rightarrow> string \<Rightarrow> string list" where
  "platform_post_args HALF_PRECISION plat =
     (if plat = ''win32'' then
        [''-Xcompiler'', ''/MD'', ''-std=c++14'', ''-Xcompiler'', ''/openmp'']
        @ (if HALF_PRECISION then [''-Xcompiler'', ''/D HALF_PRECISION''] else [])
      else
        [''-c'', ''--compiler-options'', single_quoted ''-fPIC'',
         ''--compiler-options'', single_quoted ''-std=c++14'']
        @ (if HALF_PRECISION
           then [''--compiler-options'', single_quoted ''-D HALF_PRECISION'']
           else []))"

text \<open>Lines 168 to 171: the first entry of the dictionary whose path does not exist.\<close>

fun first_missing :: "host \<Rightarrow> (string \<times> string) list \<Rightarrow> (string \<times> string) option" where
  "first_missing os [] = None"
| "first_missing os ((k, val) # rest) =
     (if path_exists os val then first_missing os rest else Some (k, val))"

text \<open>Lines 113 to 115: the name of the binary.\<close>

definition nvcc_bin :: "host \<Rightarrow> string" where
  "nvcc_bin os = (if startswith (platform os) ''win'' then ''nvcc.exe'' else ''nvcc'')"

text \<open>Lines 135 to 138 and 159: the four paths of \<open>cudaconfig\<close> at validation.\<close>

definition paths_of :: "host \<Rightarrow> string \<Rightarrow> string \<Rightarrow> cuda_paths" where
  "paths_of os h nv =
     \<lparr>home = h, nvcc = nv,
      include_dir = path_join os h [''include''],
      lib64 = (if platform os = ''win32'' then path_join os h [''lib'', ''x64'']
               else path_join os h [''lib64''])\<rparr>"

text \<open>Lines 147 to 153: the resolver's three results, assembled.\<close>

definition assembled_for :: "environ \<Rightarrow> int \<Rightarrow> string list" where
  "assembled_for env cuda_ver =
     assemble_post_args (get_cuda_arch env cuda_ver) (get_cuda_sm_list env cuda_ver)
       (get_cuda_compute env cuda_ver)"

text \<open>
  \<open>locate_cuda\<close>, with the module constant \<open>HALF_PRECISION\<close> as a parameter. The result is
  what was printed and logged, and either the exception raised or the value returned
  (\<open>None\<close> or the dictionary).
\<close>

definition locate_cuda :: "bool \<Rightarrow> host \<Rightarrow> event list \<times> (py_error + cudaconfig option)" where
  "locate_cuda HALF_PRECISION os =
     (case discover os (nvcc_bin os) of
        Inl e \<Rightarrow> ([], Inl e)
      | Inr None \<Rightarrow> ([Warning_nvcc_not_located], Inr None)
      | Inr (Some (h, nv)) \<Rightarrow>
          (case major_minor (cuda_ver_fields os h) of
             Inl e \<Rightarrow> ([], Inl e)
           | Inr (major, minor) \<Rightarrow>
               (let cuda_ver = 10 * major + minor in
                if cuda_ver < 70 then ([], Inl AssertionError)
                else
                  (let assembled = assembled_for (environ os) cuda_ver;
                       kept = (if HALF_PRECISION
                               then filter (\<lambda>flag. \<not> py_in ''52'' flag) assembled
                               else assembled);
                       paths = paths_of os h nv;
                       out = [Print_cuda_ver major minor, Print_nvcc_post_args assembled]
                   in case first_missing os (items paths) of
                        Some (k, val) \<Rightarrow> (out @ [Warning_path_not_located k val], Inr None)
                      | None \<Rightarrow>
                          (out,
                           Inr (Some \<lparr>home = home paths, nvcc = nvcc paths,
                                      include_dir = include_dir paths, lib64 = lib64 paths,
                                      post_args =
                                        kept @ platform_post_args HALF_PRECISION (platform os)\<rparr>))))))"

section \<open>CompilerDispatcher: \<open>_UnixCCompiler._compile\<close> and \<open>CudaBuildExt.run\<close>\<close>

text \<open>
  The compiler object: its attribute \<open>compiler_so\<close> and, in \<open>attrs\<close>, everything else it
  holds. The arguments of \<open>_compile\<close> are a record.
\<close>

record 's ccompiler =
  compiler_so :: "string list"
  attrs :: 's

record compile_args =
  obj :: string
  src :: string
  ext :: string
  cc_args :: "string list"
  extra_postargs :: "string list"
  pp_opts :: "string list"

text \<open>
  The two methods of \<open>distutils\<close> that \<open>_compile\<close> calls on the object:
  \<open>unixccompiler.UnixCCompiler._compile\<close> and \<open>set_executable\<close>. Each takes the object,
  may change it, and returns or raises.
\<close>

record 's distutils =
  UnixCCompiler_compile ::
    "'s ccompiler \<Rightarrow> compile_args \<Rightarrow> 's ccompiler \<times> (py_error + unit)"
  set_executable ::
    "string \<Rightarrow> string \<Rightarrow> 's ccompiler \<Rightarrow> 's ccompiler \<times> (py_error + unit)"

text \<open>
  \<open>_UnixCCompiler._compile\<close> (lines 183 to 200). The module asserts \<open>CUDA is not None\<close>
  when it is loaded (line 229), so \<open>CUDA\<close> is a dictionary here. The \<open>finally\<close> clause
  assigns the saved \<open>compiler_so\<close> on every way out of the \<open>try\<close>.
\<close>

definition cuda_compile ::
  "host \<Rightarrow> 's distutils \<Rightarrow> cudaconfig \<Rightarrow> 's ccompiler \<Rightarrow> compile_args
     \<Rightarrow> 's ccompiler \<times> (py_error + unit)" where
  "cuda_compile os lib CUDA self a =
     (if snd (path_splitext os (src a)) \<noteq> ''.cu'' then UnixCCompiler_compile lib self a
      else
        (let saved = compiler_so self;
             tried =
               (case set_executable lib ''compiler_so'' (nvcc CUDA) self of
                  (s1, Inl e) \<Rightarrow> (s1, Inl e)
                | (s1, Inr u) \<Rightarrow>
                    UnixCCompiler_compile lib s1 (a\<lparr>extra_postargs := post_args CUDA\<rparr>))
         in ((fst tried)\<lparr>compiler_so := saved\<rparr>, snd tried)))"

text \<open>
  \<open>CudaBuildExt.run\<close> (lines 206 to 223). \<open>ccompiler.new_compiler\<close> takes positional and
  keyword arguments and returns a compiler object or raises. The module defines
  \<open>_UnixCCompiler\<close> and no \<open>_MSVCCompiler\<close>: evaluating that name raises \<open>NameError\<close>.
\<close>

datatype pyval = PNone | PBool bool | PInt int | PStr string

datatype compiler_obj =
    Stock_compiler string
  | Cuda_UnixCCompiler pyval pyval pyval

type_synonym new_compiler = "pyval list \<Rightarrow> (string \<rightharpoonup> pyval) \<Rightarrow> py_error + compiler_obj"

definition wrap_new_compiler :: "string \<Rightarrow> new_compiler \<Rightarrow> new_compiler" where
  "wrap_new_compiler plat func args kwargs =
     (case func args kwargs of
        Inr c \<Rightarrow> Inr c
      | Inl e \<Rightarrow>
          if e = DistutilsPlatformError then
            (if plat \<noteq> ''win32'' then
               (case kwargs ''dry_run'' of
                  None \<Rightarrow> Inl (KeyError ''dry_run'')
                | Some d \<Rightarrow>
                    (case kwargs ''force'' of
                       None \<Rightarrow> Inl (KeyError ''force'')
                     | Some f \<Rightarrow> Inr (Cuda_UnixCCompiler PNone d f)))
             else Inl (NameError ''_MSVCCompiler''))
          else Inl e)"

text \<open>
  What \<open>run\<close> changes before it calls \<open>setuptools_build_ext.run\<close>: the module attribute
  \<open>ccompiler.new_compiler\<close> and the command's \<open>compiler\<close> option.
\<close>

record build_state =
  new_compiler :: new_compiler
  compiler :: "string option"

definition CudaBuildExt_run :: "string \<Rightarrow> cudaconfig option \<Rightarrow> build_state \<Rightarrow> build_state" where
  "CudaBuildExt_run plat CUDA st =
     (case CUDA of
        None \<Rightarrow> st
      | Some cfg \<Rightarrow>
          st\<lparr>new_compiler := wrap_new_compiler plat (new_compiler st),
             compiler := Some ''nvidia''\<rparr>)"

section \<open>Concrete hosts\<close>

text \<open>
  The functions of \<open>posixpath\<close> that the module calls, after the Python standard
  library, and hosts built from them for evaluating the model on concrete inputs.
\<close>

fun posix_join :: "string \<Rightarrow> string list \<Rightarrow> string" where
  "posix_join a [] = a"
| "posix_join a (b # ps) =
     posix_join
       (if startswith b ''/'' then b
        else if a = [] \<or> last a = CHR ''/'' then a @ b
        else a @ ''/'' @ b) ps"

definition posix_basename :: "string \<Rightarrow> string" where
  "posix_basename p = rev (takeWhile (\<lambda>c. c \<noteq> CHR ''/'') (rev p))"

definition posix_dirname :: "string \<Rightarrow> string" where
  "posix_dirname p =
     (let head = rev (dropWhile (\<lambda>c. c \<noteq> CHR ''/'') (rev p)) in
      if head \<noteq> [] \<and> list_ex (\<lambda>c. c \<noteq> CHR ''/'') head
      then rev (dropWhile (\<lambda>c. c = CHR ''/'') (rev head))
      else head)"

definition posix_splitext :: "string \<Rightarrow> string \<times> string" where
  "posix_splitext p =
     (let base = posix_basename p;
          ext = rev (takeWhile (\<lambda>c. c \<noteq> CHR ''.'') (rev base));
          stem = take (length base - length ext - 1) base
      in if list_ex (\<lambda>c. c = CHR ''.'') base \<and> list_ex (\<lambda>c. c \<noteq> CHR ''.'') stem
         then (take (length p - length ext - 1) p, drop (length p - length ext - 1) p)
         else (p, []))"

definition posix_host :: "environ \<Rightarrow> (string \<Rightarrow> string) \<Rightarrow> (string \<Rightarrow> bool) \<Rightarrow> host" where
  "posix_host env realpath ex =
     \<lparr>environ = env, platform = ''linux'', pathsep = CHR '':'',
      path_join = posix_join, path_basename = posix_basename,
      path_dirname = posix_dirname, path_realpath = realpath,
      path_abspath = (\<lambda>p. p), path_exists = ex, path_splitext = posix_splitext\<rparr>"

text \<open>\<open>CUDA_HOME=/usr/local/cuda-11.0\<close>, every path present.\<close>

definition host_cuda_110 :: host where
  "host_cuda_110 =
     posix_host [''CUDA_HOME'' \<mapsto> ''/usr/local/cuda-11.0''] (\<lambda>p. p) (\<lambda>p. True)"

text \<open>The same installation without its \<open>include\<close> directory.\<close>

definition host_no_include :: host where
  "host_no_include =
     posix_host [''CUDA_HOME'' \<mapsto> ''/usr/local/cuda-11.0''] (\<lambda>p. p)
       (\<lambda>p. p \<noteq> ''/usr/local/cuda-11.0/include'')"

text \<open>\<open>CUDA_HOME=/opt/cuda\<close>, a real directory whose name holds no version.\<close>

definition host_opt_cuda :: host where
  "host_opt_cuda = posix_host [''CUDA_HOME'' \<mapsto> ''/opt/cuda''] (\<lambda>p. p) (\<lambda>p. True)"

text \<open>\<open>CUDA_HOME=/usr/local/cuda-11\<close>: a major version and no minor one.\<close>

definition host_cuda_11 :: host where
  "host_cuda_11 = posix_host [''CUDA_HOME'' \<mapsto> ''/usr/local/cuda-11''] (\<lambda>p. p) (\<lambda>p. True)"

text \<open>
  A stand-in for \<open>distutils\<close> that records each command line the compile step would
  spawn (\<open>compiler_so + cc_args + [src, '-o', obj] + extra_postargs\<close>), and one whose
  compile step raises after recording. \<open>set_executable\<close> stores the executable as a
  one-word command.
\<close>

definition spawn_line :: "'s ccompiler \<Rightarrow> compile_args \<Rightarrow> string list" where
  "spawn_line self a = compiler_so self @ cc_args a @ [src a, ''-o'', obj a] @ extra_postargs a"

definition store_executable ::
  "string \<Rightarrow> string \<Rightarrow> 's ccompiler \<Rightarrow> 's ccompiler \<times> (py_error + unit)" where
  "store_executable key val self =
     (if key = ''compiler_so'' then (self\<lparr>compiler_so := [val]\<rparr>, Inr ()) else (self, Inr ()))"

definition recording_distutils :: "string list list distutils" where
  "recording_distutils =
     \<lparr>UnixCCompiler_compile =
        (\<lambda>self a. (self\<lparr>attrs := attrs self @ [spawn_line self a]\<rparr>, Inr ())),
      set_executable = store_executable\<rparr>"

definition failing_distutils :: "string list list distutils" where
  "failing_distutils =
     \<lparr>UnixCCompiler_compile =
        (\<lambda>self a. (self\<lparr>attrs := attrs self @ [spawn_line self a]\<rparr>,
                   Inl (OtherError ''CompileError''))),
      set_executable = store_executable\<rparr>"

definition gcc_compiler :: "string list list ccompiler" where
  "gcc_compiler = \<lparr>compiler_so = [''gcc'', ''-fPIC''], attrs = []\<rparr>"

definition kernel_args :: compile_args where
  "kernel_args =
     \<lparr>obj = ''build/kernel.o'', src = ''cpp/src/kernel.cu'', ext = ''.cu'',
      cc_args = [''-Iinclude''], extra_postargs = [''-O3''], pp_opts = []\<rparr>"

definition host_args :: compile_args where
  "host_args =
     \<lparr>obj = ''build/bind.o'', src = ''cpp/src/bind.cc'', ext = ''.cc'',
      cc_args = [''-Iinclude''], extra_postargs = [''-O3''], pp_opts = []\<rparr>"

definition demo_config :: cudaconfig where
  "demo_config =
     \<lparr>home = ''/usr/local/cuda-11.0'', nvcc = ''/usr/local/cuda-11.0/bin/nvcc'',
      include_dir = ''/usr/local/cuda-11.0/include'', lib64 = ''/usr/local/cuda-11.0/lib64'',
      post_args = [''-arch=sm_52'', ''--ptxas-options=-v'', ''-O2'', ''-c'']\<rparr>"

text \<open>
  A stand-in for the stock \<open>ccompiler.new_compiler\<close>: it knows the compiler type \<open>unix\<close>
  and raises \<open>DistutilsPlatformError\<close> for any other, as for \<open>nvidia\<close>.
\<close>

definition stock_new_compiler :: new_compiler where
  "stock_new_compiler args kwargs =
     (if kwargs ''compiler'' = Some (PStr ''unix'') then Inr (Stock_compiler ''unix'')
      else Inl DistutilsPlatformError)"

definition build_ext_kwargs :: "string \<rightharpoonup> pyval" where
  "build_ext_kwargs =
     [''compiler'' \<mapsto> PStr ''nvidia'', ''verbose'' \<mapsto> PInt 0,
      ''dry_run'' \<mapsto> PBool False, ''force'' \<mapsto> PBool False]"

section \<open>Properties of the resolver\<close>

lemma py_split_not_Nil: "py_split sep s \<noteq> []"
  by (induction s) (auto split: list.splits)

lemma set_filter_list: "set (filter_list v) = spec_exclusion_set v"
  by (auto simp: filter_list_def spec_exclusion_set_def)

text \<open>
  C1. With the override variable of a field unset, the resolver returns the tabulated
  flag for every integer version: \<open>archFlag\<close> is "30" on [70,92), "50" on [92,110), "52" at
  110, "80" on [111,120), "90" on [120,128] and "90" everywhere else; \<open>computeFlag\<close> is
  "52" on [70,80), "61" on [80,90), "70" on [90,100), "75" on [100,110), "80" at 110, "86"
  on [111,115), "89" on [115,120), "90" on [120,128] and "90" everywhere else.
\<close>

theorem resolver_tables:
  "(env ''CUDA_ARCH'' = None \<longrightarrow>
      (70 \<le> v \<and> v < 92 \<longrightarrow> get_cuda_arch env v = ''30'') \<and>
      (92 \<le> v \<and> v < 110 \<longrightarrow> get_cuda_arch env v = ''50'') \<and>
      (v = 110 \<longrightarrow> get_cuda_arch env v = ''52'') \<and>
      (111 \<le> v \<and> v < 120 \<longrightarrow> get_cuda_arch env v = ''80'') \<and>
      (120 \<le> v \<and> v \<le> 128 \<longrightarrow> get_cuda_arch env v = ''90'') \<and>
      (v < 70 \<or> 128 < v \<longrightarrow> get_cuda_arch env v = ''90'')) \<and>
   (env ''CUDA_COMPUTE'' = None \<longrightarrow>
      (70 \<le> v \<and> v < 80 \<longrightarrow> get_cuda_compute env v = ''52'') \<and>
      (80 \<le> v \<and> v < 90 \<longrightarrow> get_cuda_compute env v = ''61'') \<and>
      (90 \<le> v \<and> v < 100 \<longrightarrow> get_cuda_compute env v = ''70'') \<and>
      (100 \<le> v \<and> v < 110 \<longrightarrow> get_cuda_compute env v = ''75'') \<and>
      (v = 110 \<longrightarrow> get_cuda_compute env v = ''80'') \<and>
      (111 \<le> v \<and> v < 115 \<longrightarrow> get_cuda_compute env v = ''86'') \<and>
      (115 \<le> v \<and> v < 120 \<longrightarrow> get_cuda_compute env v = ''89'') \<and>
      (120 \<le> v \<and> v \<le> 128 \<longrightarrow> get_cuda_compute env v = ''90'') \<and>
      (v < 70 \<or> 128 < v \<longrightarrow> get_cuda_compute env v = ''90''))"
  by (simp add: get_cuda_arch_def get_cuda_compute_def)

theorem resolver_tables_witness:
  "get_cuda_arch Map.empty 69 = ''90'' \<and> get_cuda_compute Map.empty 69 = ''90'' \<and>
   get_cuda_arch Map.empty 70 = ''30'' \<and> get_cuda_compute Map.empty 70 = ''52'' \<and>
   get_cuda_arch Map.empty 91 = ''30'' \<and> get_cuda_compute Map.empty 91 = ''70'' \<and>
   get_cuda_arch Map.empty 92 = ''50'' \<and> get_cuda_compute Map.empty 80 = ''61'' \<and>
   get_cuda_arch Map.empty 109 = ''50'' \<and> get_cuda_compute Map.empty 109 = ''75'' \<and>
   get_cuda_arch Map.empty 110 = ''52'' \<and> get_cuda_compute Map.empty 110 = ''80'' \<and>
   get_cuda_arch Map.empty 111 = ''80'' \<and> get_cuda_compute Map.empty 111 = ''86'' \<and>
   get_cuda_arch Map.empty 119 = ''80'' \<and> get_cuda_compute Map.empty 115 = ''89'' \<and>
   get_cuda_arch Map.empty 120 = ''90'' \<and> get_cuda_compute Map.empty 120 = ''90'' \<and>
   get_cuda_arch Map.empty 128 = ''90'' \<and> get_cuda_compute Map.empty 128 = ''90'' \<and>
   get_cuda_arch Map.empty 129 = ''90'' \<and> get_cuda_compute Map.empty 129 = ''90''"
  using resolver_tables [of Map.empty 69] resolver_tables [of Map.empty 70]
    resolver_tables [of Map.empty 91] resolver_tables [of Map.empty 92]
    resolver_tables [of Map.empty 80] resolver_tables [of Map.empty 109]
    resolver_tables [of Map.empty 110] resolver_tables [of Map.empty 111]
    resolver_tables [of Map.empty 119] resolver_tables [of Map.empty 115]
    resolver_tables [of Map.empty 120] resolver_tables [of Map.empty 128]
    resolver_tables [of Map.empty 129]
  by simp

text \<open>
  C2. With the sm-list override unset, the computed \<open>smList\<close> is the base list minus the
  specification's exclusion set, in base-list order, for every integer version; for
  version 110 it is "52", "60", "61", "70", "75", "80".
\<close>

theorem sm_list_is_base_minus_exclusions:
  assumes "env ''CUDA_SM_LIST'' = None"
  shows "get_cuda_sm_list env v = filter (\<lambda>sm. sm \<notin> spec_exclusion_set v) spec_base_sm_list
       \<and> get_cuda_sm_list env 110 = [''52'', ''60'', ''61'', ''70'', ''75'', ''80'']"
proof -
  have general: "get_cuda_sm_list env w = filter (\<lambda>sm. sm \<notin> spec_exclusion_set w) spec_base_sm_list"
    for w
    using assms by (simp add: get_cuda_sm_list_def set_filter_list spec_base_sm_list_def)
  have "filter (\<lambda>sm. sm \<notin> spec_exclusion_set 110) spec_base_sm_list
      = [''52'', ''60'', ''61'', ''70'', ''75'', ''80'']"
    by (simp add: spec_exclusion_set_def spec_base_sm_list_def)
  with general [of v] general [of 110] show ?thesis by simp
qed

theorem sm_list_is_base_minus_exclusions_witness:
  "Map.empty ''CUDA_SM_LIST'' = (None :: string option)
   \<and> get_cuda_sm_list Map.empty 102
       = filter (\<lambda>sm. sm \<notin> spec_exclusion_set 102) spec_base_sm_list
   \<and> get_cuda_sm_list Map.empty 102 = [''30'', ''52'', ''60'', ''61'', ''70'', ''75'']
   \<and> get_cuda_sm_list Map.empty 110 = [''52'', ''60'', ''61'', ''70'', ''75'', ''80'']"
proof -
  have unset: "Map.empty ''CUDA_SM_LIST'' = (None :: string option)" by simp
  have "filter (\<lambda>sm. sm \<notin> spec_exclusion_set 102) spec_base_sm_list
      = [''30'', ''52'', ''60'', ''61'', ''70'', ''75'']"
    by (simp add: spec_exclusion_set_def spec_base_sm_list_def)
  with sm_list_is_base_minus_exclusions [OF unset, of 102] show ?thesis by simp
qed

text \<open>
  C3, as amended. For version 75 with the sm-list override unset, the computed \<open>smList\<close>
  is the base list minus "80", "86", "75", "70", "60" and "61", that is exactly "30",
  "52": version 75 is below 100, below 90 and below 80, and each of the three guards of
  \<open>get_cuda_sm_list\<close> adds its exclusions.
\<close>

theorem sm_list_75:
  assumes "env ''CUDA_SM_LIST'' = None"
  shows "get_cuda_sm_list env 75 = [''30'', ''52'']
       \<and> get_cuda_sm_list env 75
           = filter (\<lambda>sm. sm \<notin> {''80'', ''86'', ''75'', ''70'', ''60'', ''61''})
               [''30'', ''52'', ''60'', ''61'', ''70'', ''75'', ''80'', ''86'']"
  using assms by (simp add: get_cuda_sm_list_def filter_list_def)

theorem sm_list_75_witness:
  "Map.empty ''CUDA_SM_LIST'' = (None :: string option)
   \<and> get_cuda_sm_list Map.empty 75 = [''30'', ''52'']"
proof -
  have unset: "Map.empty ''CUDA_SM_LIST'' = (None :: string option)" by simp
  from sm_list_75 [OF unset] show ?thesis using unset by simp
qed

text \<open>
  C3, as stated, names the list "30", "52", "60", "61", "70" (the base list minus "80",
  "86" and "75" only). With no variable set, that is not the list computed for version 75.
\<close>

theorem sm_list_75_counterexample:
  "Map.empty ''CUDA_SM_LIST'' = (None :: string option)
   \<and> get_cuda_sm_list Map.empty 75 \<noteq> [''30'', ''52'', ''60'', ''61'', ''70'']"
  by (simp add: get_cuda_sm_list_def filter_list_def)

section \<open>Properties of the locator\<close>

text \<open>What \<open>startswith\<close> and \<open>in\<close> compute, stated on lists.\<close>

lemma startswith_iff: "startswith s p \<longleftrightarrow> (\<exists>q. s = p @ q)"
  by (induction s p rule: startswith.induct) auto

lemma py_in_iff: "py_in sub s \<longleftrightarrow> (\<exists>p q. s = p @ sub @ q)"
proof (induction s)
  case Nil
  then show ?case by auto
next
  case (Cons c cs)
  show ?case
  proof
    assume "py_in sub (c # cs)"
    then consider "startswith (c # cs) sub" | "py_in sub cs" by auto
    then show "\<exists>p q. c # cs = p @ sub @ q"
    proof cases
      case 1
      then obtain q where "c # cs = sub @ q" by (auto simp: startswith_iff)
      then have "c # cs = [] @ sub @ q" by simp
      then show ?thesis by blast
    next
      case 2
      with Cons obtain p q where "cs = p @ sub @ q" by blast
      then have "c # cs = (c # p) @ sub @ q" by simp
      then show ?thesis by blast
    qed
  next
    assume "\<exists>p q. c # cs = p @ sub @ q"
    then obtain p q where eq: "c # cs = p @ sub @ q" by blast
    show "py_in sub (c # cs)"
    proof (cases p)
      case Nil
      with eq have "startswith (c # cs) sub" by (auto simp: startswith_iff)
      then show ?thesis by simp
    next
      case (Cons x xs)
      with eq have "cs = xs @ sub @ q" by simp
      with Cons.IH have "py_in sub cs" by blast
      then show ?thesis by simp
    qed
  qed
qed

text \<open>The validation loop stops at the first path that does not exist.\<close>

lemma first_missing_Some:
  "first_missing os kvs = Some (k, val) \<Longrightarrow> (k, val) \<in> set kvs \<and> \<not> path_exists os val"
  by (induction os kvs rule: first_missing.induct) (auto split: if_splits)

lemma first_missing_None:
  "first_missing os kvs = None \<longleftrightarrow> list_all (\<lambda>kv. path_exists os (snd kv)) kvs"
  by (induction os kvs rule: first_missing.induct) auto

text \<open>
  A run that has discovered \<open>home\<close> and parsed a version of at least 70 ends in the
  validation loop; a run that returns a dictionary is such a run.
\<close>

lemma locate_cuda_reached:
  assumes "discover os (nvcc_bin os) = Inr (Some (h, nv))"
    and "major_minor (cuda_ver_fields os h) = Inr (major, minor)"
    and "70 \<le> 10 * major + minor"
  shows "locate_cuda hp os =
     (case first_missing os (items (paths_of os h nv)) of
        Some (k, val) \<Rightarrow>
          ([Print_cuda_ver major minor,
            Print_nvcc_post_args (assembled_for (environ os) (10 * major + minor)),
            Warning_path_not_located k val], Inr None)
      | None \<Rightarrow>
          ([Print_cuda_ver major minor,
            Print_nvcc_post_args (assembled_for (environ os) (10 * major + minor))],
           Inr (Some \<lparr>home = h, nvcc = nv,
                      include_dir = include_dir (paths_of os h nv),
                      lib64 = lib64 (paths_of os h nv),
                      post_args =
                        (if hp then filter (\<lambda>flag. \<not> py_in ''52'' flag)
                                      (assembled_for (environ os) (10 * major + minor))
                         else assembled_for (environ os) (10 * major + minor))
                        @ platform_post_args hp (platform os)\<rparr>)))"
  using assms by (simp add: locate_cuda_def Let_def paths_of_def split: option.splits)

lemma locate_cuda_Some:
  assumes "snd (locate_cuda hp os) = Inr (Some c)"
  shows "\<exists>h nv major minor.
           discover os (nvcc_bin os) = Inr (Some (h, nv))
         \<and> major_minor (cuda_ver_fields os h) = Inr (major, minor)
         \<and> 70 \<le> 10 * major + minor
         \<and> first_missing os (items (paths_of os h nv)) = None"
  using assms
  by (auto simp: locate_cuda_def Let_def split: sum.splits option.splits prod.splits if_splits)


lemma items_paths_of:
  "items (paths_of os h nv) =
     [(''home'', h), (''nvcc'', nv), (''include'', include_dir (paths_of os h nv)),
      (''lib64'', lib64 (paths_of os h nv))]"
  by (simp add: items_def paths_of_def)

lemma validation_warns:
  assumes "discover os (nvcc_bin os) = Inr (Some (h, nv))"
    and "major_minor (cuda_ver_fields os h) = Inr (major, minor)"
    and "70 \<le> 10 * major + minor"
    and "\<not> path_exists os h
           \<or> \<not> path_exists os (include_dir (paths_of os h nv))
           \<or> \<not> path_exists os (lib64 (paths_of os h nv))"
  shows "\<exists>k val.
           locate_cuda hp os =
             ([Print_cuda_ver major minor,
               Print_nvcc_post_args (assembled_for (environ os) (10 * major + minor)),
               Warning_path_not_located k val], Inr None)
         \<and> (k, val) \<in> set (items (paths_of os h nv))
         \<and> \<not> path_exists os val"
proof -
  from assms(4) have "first_missing os (items (paths_of os h nv)) \<noteq> None"
    unfolding first_missing_None items_paths_of by auto
  then obtain k val where fm: "first_missing os (items (paths_of os h nv)) = Some (k, val)"
    by (cases "first_missing os (items (paths_of os h nv))") auto
  have "locate_cuda hp os =
       ([Print_cuda_ver major minor,
         Print_nvcc_post_args (assembled_for (environ os) (10 * major + minor)),
         Warning_path_not_located k val], Inr None)"
    by (simp add: locate_cuda_reached [OF assms(1-3)] fm)
  with first_missing_Some [OF fm] show ?thesis by blast
qed

lemma returned_config_exists:
  assumes ret: "snd (locate_cuda hp os) = Inr (Some c)"
  shows "path_exists os (home c) \<and> path_exists os (nvcc c)
       \<and> path_exists os (include_dir c) \<and> path_exists os (lib64 c)"
proof -
  from locate_cuda_Some [OF ret] obtain h nv major minor where
    d: "discover os (nvcc_bin os) = Inr (Some (h, nv))"
    and m: "major_minor (cuda_ver_fields os h) = Inr (major, minor)"
    and v: "70 \<le> 10 * major + minor"
    and fm: "first_missing os (items (paths_of os h nv)) = None"
    by blast
  from ret have c: "home c = h \<and> nvcc c = nv
      \<and> include_dir c = include_dir (paths_of os h nv)
      \<and> lib64 c = lib64 (paths_of os h nv)"
    by (auto simp: locate_cuda_reached [OF d m v] fm)
  from fm have "path_exists os h \<and> path_exists os nv
      \<and> path_exists os (include_dir (paths_of os h nv))
      \<and> path_exists os (lib64 (paths_of os h nv))"
    unfolding first_missing_None items_paths_of by simp
  with c show ?thesis by simp
qed

text \<open>
  C6. In every run of \<open>locate_cuda\<close> that reaches validation (a home directory was
  discovered, its version parsed and not below 70) with the home directory, the include
  directory or the library directory missing, the run logs a validation warning that
  names a missing component with its path (the first missing one in the order home,
  nvcc, include, lib64) and returns \<open>None\<close>; and whenever a configuration is returned,
  all of these directories exist.
\<close>

theorem locate_cuda_validation:
  "(discover os (nvcc_bin os) = Inr (Some (h, nv))
      \<and> major_minor (cuda_ver_fields os h) = Inr (major, minor)
      \<and> 70 \<le> 10 * major + minor
      \<and> (\<not> path_exists os h
           \<or> \<not> path_exists os (include_dir (paths_of os h nv))
           \<or> \<not> path_exists os (lib64 (paths_of os h nv)))
    \<longrightarrow> (\<exists>k val.
           locate_cuda hp os =
             ([Print_cuda_ver major minor,
               Print_nvcc_post_args (assembled_for (environ os) (10 * major + minor)),
               Warning_path_not_located k val], Inr None)
         \<and> (k, val) \<in> set (items (paths_of os h nv))
         \<and> \<not> path_exists os val))
   \<and> (\<forall>c. snd (locate_cuda hp os) = Inr (Some c)
        \<longrightarrow> path_exists os (home c) \<and> path_exists os (include_dir c)
            \<and> path_exists os (lib64 c))"
  using validation_warns [of os h nv major minor hp] returned_config_exists [of hp os]
  by blast

text \<open>The two installations under \<open>/usr/local/cuda-11.0\<close>, evaluated.\<close>

lemma run_no_include:
  "discover host_no_include (nvcc_bin host_no_include)
     = Inr (Some (''/usr/local/cuda-11.0'', ''/usr/local/cuda-11.0/bin/nvcc''))
   \<and> major_minor (cuda_ver_fields host_no_include ''/usr/local/cuda-11.0'') = Inr (11, 0)
   \<and> path_exists host_no_include ''/usr/local/cuda-11.0''
   \<and> include_dir (paths_of host_no_include ''/usr/local/cuda-11.0''
        ''/usr/local/cuda-11.0/bin/nvcc'') = ''/usr/local/cuda-11.0/include''
   \<and> \<not> path_exists host_no_include ''/usr/local/cuda-11.0/include''"
  by code_simp

lemma run_cuda_110:
  "locate_cuda False host_cuda_110 =
     ([Print_cuda_ver 11 0,
       Print_nvcc_post_args
        [''-arch=sm_52'', ''-gencode=arch=compute_52,code=sm_52'',
         ''-gencode=arch=compute_60,code=sm_60'', ''-gencode=arch=compute_61,code=sm_61'',
         ''-gencode=arch=compute_70,code=sm_70'', ''-gencode=arch=compute_75,code=sm_75'',
         ''-gencode=arch=compute_80,code=sm_80'',
         ''-gencode=arch=compute_80,code=compute_80'', ''--ptxas-options=-v'', ''-O2'']],
      Inr (Some
        \<lparr>home = ''/usr/local/cuda-11.0'', nvcc = ''/usr/local/cuda-11.0/bin/nvcc'',
         include_dir = ''/usr/local/cuda-11.0/include'',
         lib64 = ''/usr/local/cuda-11.0/lib64'',
         post_args =
           [''-arch=sm_52'', ''-gencode=arch=compute_52,code=sm_52'',
            ''-gencode=arch=compute_60,code=sm_60'', ''-gencode=arch=compute_61,code=sm_61'',
            ''-gencode=arch=compute_70,code=sm_70'', ''-gencode=arch=compute_75,code=sm_75'',
            ''-gencode=arch=compute_80,code=sm_80'',
            ''-gencode=arch=compute_80,code=compute_80'', ''--ptxas-options=-v'', ''-O2'',
            ''-c'', ''--compiler-options'', single_quoted ''-fPIC'',
            ''--compiler-options'', single_quoted ''-std=c++14'']\<rparr>))"
  by code_simp

theorem locate_cuda_validation_witness:
  "discover host_no_include (nvcc_bin host_no_include)
     = Inr (Some (''/usr/local/cuda-11.0'', ''/usr/local/cuda-11.0/bin/nvcc''))
   \<and> major_minor (cuda_ver_fields host_no_include ''/usr/local/cuda-11.0'') = Inr (11, 0)
   \<and> \<not> path_exists host_no_include ''/usr/local/cuda-11.0/include''
   \<and> (\<exists>k val out.
         locate_cuda False host_no_include = (out @ [Warning_path_not_located k val], Inr None)
       \<and> \<not> path_exists host_no_include val)
   \<and> path_exists host_cuda_110 ''/usr/local/cuda-11.0''
   \<and> path_exists host_cuda_110 ''/usr/local/cuda-11.0/include''
   \<and> path_exists host_cuda_110 ''/usr/local/cuda-11.0/lib64''"
proof -
  note missing = locate_cuda_validation [of host_no_include "''/usr/local/cuda-11.0''"
      "''/usr/local/cuda-11.0/bin/nvcc''" 11 0 False, THEN conjunct1]
  note present = locate_cuda_validation [where os = host_cuda_110 and hp = False,
      THEN conjunct2, rule_format, of "\<lparr>home = ''/usr/local/cuda-11.0'', nvcc = ''/usr/local/cuda-11.0/bin/nvcc'',
         include_dir = ''/usr/local/cuda-11.0/include'',
         lib64 = ''/usr/local/cuda-11.0/lib64'',
         post_args =
           [''-arch=sm_52'', ''-gencode=arch=compute_52,code=sm_52'',
            ''-gencode=arch=compute_60,code=sm_60'', ''-gencode=arch=compute_61,code=sm_61'',
            ''-gencode=arch=compute_70,code=sm_70'', ''-gencode=arch=compute_75,code=sm_75'',
            ''-gencode=arch=compute_80,code=sm_80'',
            ''-gencode=arch=compute_80,code=compute_80'', ''--ptxas-options=-v'', ''-O2'',
            ''-c'', ''--compiler-options'', single_quoted ''-fPIC'',
            ''--compiler-options'', single_quoted ''-std=c++14'']\<rparr>"]
  have a: "\<exists>k val out.
         locate_cuda False host_no_include = (out @ [Warning_path_not_located k val], Inr None)
       \<and> \<not> path_exists host_no_include val"
    using missing run_no_include by force
  have b: "path_exists host_cuda_110 ''/usr/local/cuda-11.0''
   \<and> path_exists host_cuda_110 ''/usr/local/cuda-11.0/include''
   \<and> path_exists host_cuda_110 ''/usr/local/cuda-11.0/lib64''"
    using present by (simp add: run_cuda_110)
  from a b run_no_include show ?thesis by simp
qed


lemma assemble_post_args_nth:
  "length (assemble_post_args arch sm_list compute) = length sm_list + 4"
  "assemble_post_args arch sm_list compute ! 0 = ''-arch=sm_'' @ arch"
  "i < length sm_list \<Longrightarrow>
     assemble_post_args arch sm_list compute ! (i + 1)
       = ''-gencode=arch=compute_'' @ sm_list ! i @ '',code=sm_'' @ sm_list ! i"
  "assemble_post_args arch sm_list compute ! (length sm_list + 1)
     = ''-gencode=arch=compute_'' @ compute @ '',code=compute_'' @ compute"
  "assemble_post_args arch sm_list compute ! (length sm_list + 2) = ''--ptxas-options=-v''"
  "assemble_post_args arch sm_list compute ! (length sm_list + 3) = ''-O2''"
  by (simp_all add: assemble_post_args_def nth_append)

lemma locate_cuda_returns:
  assumes "locate_cuda hp os = (out, Inr (Some c))"
  shows "\<exists>major minor.
           out = [Print_cuda_ver major minor,
                  Print_nvcc_post_args (assembled_for (environ os) (10 * major + minor))]
         \<and> post_args c =
             (if hp then filter (\<lambda>flag. \<not> py_in ''52'' flag)
                           (assembled_for (environ os) (10 * major + minor))
              else assembled_for (environ os) (10 * major + minor))
             @ platform_post_args hp (platform os)"
proof -
  from assms have ret: "snd (locate_cuda hp os) = Inr (Some c)" by simp
  from locate_cuda_Some [OF ret] obtain h nv major minor where
    d: "discover os (nvcc_bin os) = Inr (Some (h, nv))"
    and m: "major_minor (cuda_ver_fields os h) = Inr (major, minor)"
    and v: "70 \<le> 10 * major + minor"
    and fm: "first_missing os (items (paths_of os h nv)) = None"
    by blast
  from assms have
    "out = [Print_cuda_ver major minor,
            Print_nvcc_post_args (assembled_for (environ os) (10 * major + minor))]
     \<and> post_args c =
         (if hp then filter (\<lambda>flag. \<not> py_in ''52'' flag)
                       (assembled_for (environ os) (10 * major + minor))
          else assembled_for (environ os) (10 * major + minor))
         @ platform_post_args hp (platform os)"
    by (auto simp: locate_cuda_reached [OF d m v] fm)
  then show ?thesis by blast
qed

text \<open>
  C7. For every \<open>arch\<close>, \<open>sm_list\<close> and \<open>compute\<close> the assembled list is, in order,
  \<open>-arch=sm_<arch>\<close>, one flag \<open>-gencode=arch=compute_<sm>,code=sm_<sm>\<close> per entry of
  \<open>sm_list\<close> in list order, \<open>-gencode=arch=compute_<compute>,code=compute_<compute>\<close>,
  \<open>--ptxas-options=-v\<close> and \<open>-O2\<close>; \<open>locate_cuda\<close> prints this list for the resolved values
  and, with half precision off, returns a \<open>post_args\<close> that begins with it.
\<close>

theorem post_args_layout:
  "(length (assemble_post_args arch sm_list compute) = length sm_list + 4
    \<and> assemble_post_args arch sm_list compute ! 0 = ''-arch=sm_'' @ arch
    \<and> (\<forall>i. i < length sm_list \<longrightarrow>
          assemble_post_args arch sm_list compute ! (i + 1)
            = ''-gencode=arch=compute_'' @ sm_list ! i @ '',code=sm_'' @ sm_list ! i)
    \<and> assemble_post_args arch sm_list compute ! (length sm_list + 1)
        = ''-gencode=arch=compute_'' @ compute @ '',code=compute_'' @ compute
    \<and> assemble_post_args arch sm_list compute ! (length sm_list + 2) = ''--ptxas-options=-v''
    \<and> assemble_post_args arch sm_list compute ! (length sm_list + 3) = ''-O2'')
   \<and> (\<forall>out c. locate_cuda False os = (out, Inr (Some c)) \<longrightarrow>
        (\<exists>major minor.
           out = [Print_cuda_ver major minor,
                  Print_nvcc_post_args
                    (assemble_post_args (get_cuda_arch (environ os) (10 * major + minor))
                       (get_cuda_sm_list (environ os) (10 * major + minor))
                       (get_cuda_compute (environ os) (10 * major + minor)))]
         \<and> post_args c =
             assemble_post_args (get_cuda_arch (environ os) (10 * major + minor))
               (get_cuda_sm_list (environ os) (10 * major + minor))
               (get_cuda_compute (environ os) (10 * major + minor))
             @ platform_post_args False (platform os)))"
proof -
  have located: "\<exists>major minor.
           out = [Print_cuda_ver major minor,
                  Print_nvcc_post_args
                    (assemble_post_args (get_cuda_arch (environ os) (10 * major + minor))
                       (get_cuda_sm_list (environ os) (10 * major + minor))
                       (get_cuda_compute (environ os) (10 * major + minor)))]
         \<and> post_args c =
             assemble_post_args (get_cuda_arch (environ os) (10 * major + minor))
               (get_cuda_sm_list (environ os) (10 * major + minor))
               (get_cuda_compute (environ os) (10 * major + minor))
             @ platform_post_args False (platform os)"
    if "locate_cuda False os = (out, Inr (Some c))" for out c
    using locate_cuda_returns [OF that] by (simp add: assembled_for_def)
  have layout:
    "length (assemble_post_args arch sm_list compute) = length sm_list + 4
    \<and> assemble_post_args arch sm_list compute ! 0 = ''-arch=sm_'' @ arch
    \<and> (\<forall>i. i < length sm_list \<longrightarrow>
          assemble_post_args arch sm_list compute ! (i + 1)
            = ''-gencode=arch=compute_'' @ sm_list ! i @ '',code=sm_'' @ sm_list ! i)
    \<and> assemble_post_args arch sm_list compute ! (length sm_list + 1)
        = ''-gencode=arch=compute_'' @ compute @ '',code=compute_'' @ compute
    \<and> assemble_post_args arch sm_list compute ! (length sm_list + 2) = ''--ptxas-options=-v''
    \<and> assemble_post_args arch sm_list compute ! (length sm_list + 3) = ''-O2''"
    by (intro conjI allI impI) (fact assemble_post_args_nth | erule assemble_post_args_nth)+
  from located have
    "\<forall>out c. locate_cuda False os = (out, Inr (Some c)) \<longrightarrow>
        (\<exists>major minor.
           out = [Print_cuda_ver major minor,
                  Print_nvcc_post_args
                    (assemble_post_args (get_cuda_arch (environ os) (10 * major + minor))
                       (get_cuda_sm_list (environ os) (10 * major + minor))
                       (get_cuda_compute (environ os) (10 * major + minor)))]
         \<and> post_args c =
             assemble_post_args (get_cuda_arch (environ os) (10 * major + minor))
               (get_cuda_sm_list (environ os) (10 * major + minor))
               (get_cuda_compute (environ os) (10 * major + minor))
             @ platform_post_args False (platform os))"
    by (intro allI impI)
  with layout show ?thesis by (rule conjI)
qed

theorem post_args_layout_witness:
  "assemble_post_args ''52'' [''60'', ''61''] ''80''
     = [''-arch=sm_52'', ''-gencode=arch=compute_60,code=sm_60'',
        ''-gencode=arch=compute_61,code=sm_61'',
        ''-gencode=arch=compute_80,code=compute_80'', ''--ptxas-options=-v'', ''-O2'']
   \<and> assemble_post_args ''52'' [''60'', ''61''] ''80'' ! (0 + 1)
       = ''-gencode=arch=compute_60,code=sm_60''
   \<and> assemble_post_args ''52'' [''60'', ''61''] ''80'' ! (1 + 1)
       = ''-gencode=arch=compute_61,code=sm_61''
   \<and> (\<exists>out c major minor.
         locate_cuda False host_cuda_110 = (out, Inr (Some c))
       \<and> out = [Print_cuda_ver major minor,
                Print_nvcc_post_args
                  (assemble_post_args ''52'' [''52'', ''60'', ''61'', ''70'', ''75'', ''80''] ''80'')]
       \<and> post_args c =
           assemble_post_args ''52'' [''52'', ''60'', ''61'', ''70'', ''75'', ''80''] ''80''
           @ [''-c'', ''--compiler-options'', single_quoted ''-fPIC'',
              ''--compiler-options'', single_quoted ''-std=c++14''])"
proof -
  note layout = post_args_layout [of "''52''" "[''60'', ''61'']" "''80''" host_cuda_110]
  from layout have i0: "assemble_post_args ''52'' [''60'', ''61''] ''80'' ! (0 + 1)
       = ''-gencode=arch=compute_60,code=sm_60''"
    by simp
  from layout have i1: "assemble_post_args ''52'' [''60'', ''61''] ''80'' ! (1 + 1)
       = ''-gencode=arch=compute_61,code=sm_61''"
    by simp
  have whole: "assemble_post_args ''52'' [''60'', ''61''] ''80''
     = [''-arch=sm_52'', ''-gencode=arch=compute_60,code=sm_60'',
        ''-gencode=arch=compute_61,code=sm_61'',
        ''-gencode=arch=compute_80,code=compute_80'', ''--ptxas-options=-v'', ''-O2'']"
    by (simp add: assemble_post_args_def)
  have run: "\<exists>out c major minor.
         locate_cuda False host_cuda_110 = (out, Inr (Some c))
       \<and> out = [Print_cuda_ver major minor,
                Print_nvcc_post_args
                  (assemble_post_args ''52'' [''52'', ''60'', ''61'', ''70'', ''75'', ''80''] ''80'')]
       \<and> post_args c =
           assemble_post_args ''52'' [''52'', ''60'', ''61'', ''70'', ''75'', ''80''] ''80''
           @ [''-c'', ''--compiler-options'', single_quoted ''-fPIC'',
              ''--compiler-options'', single_quoted ''-std=c++14'']"
    using layout by (simp add: run_cuda_110 assemble_post_args_def)
  from whole i0 i1 run show ?thesis by blast
qed

lemma platform_post_args_no_52:
  "flag \<in> set (platform_post_args hp plat) \<Longrightarrow> \<not> py_in ''52'' flag"
  by (auto simp: platform_post_args_def single_quoted_def split: if_splits)

text \<open>
  C9. With half precision on, a returned \<open>post_args\<close> is the assembled list filtered, in
  order, followed by the platform's flags: every assembled flag whose text contains "52"
  (as \<open>-arch=sm_52\<close> or a gencode flag naming \<open>compute_52\<close> or \<open>sm_52\<close>) is absent from
  it, and every assembled flag that does not contain "52" is still in it.
\<close>

theorem half_precision_drops_52:
  assumes "locate_cuda True os = (out, Inr (Some c))"
  shows "\<exists>major minor assembled.
           assembled = assemble_post_args (get_cuda_arch (environ os) (10 * major + minor))
                         (get_cuda_sm_list (environ os) (10 * major + minor))
                         (get_cuda_compute (environ os) (10 * major + minor))
         \<and> out = [Print_cuda_ver major minor, Print_nvcc_post_args assembled]
         \<and> post_args c = filter (\<lambda>flag. \<not> py_in ''52'' flag) assembled
                           @ platform_post_args True (platform os)
         \<and> (\<forall>flag \<in> set assembled.
               (\<exists>p q. flag = p @ ''52'' @ q) \<longrightarrow> flag \<notin> set (post_args c))
         \<and> (\<forall>flag \<in> set assembled.
               \<not> (\<exists>p q. flag = p @ ''52'' @ q) \<longrightarrow> flag \<in> set (post_args c))"
proof -
  from locate_cuda_returns [OF assms] obtain major minor where
    out: "out = [Print_cuda_ver major minor,
                 Print_nvcc_post_args (assembled_for (environ os) (10 * major + minor))]"
    and pa: "post_args c =
               filter (\<lambda>flag. \<not> py_in ''52'' flag)
                 (assembled_for (environ os) (10 * major + minor))
               @ platform_post_args True (platform os)"
    by auto
  define assembled where "assembled = assembled_for (environ os) (10 * major + minor)"
  have dropped: "flag \<notin> set (post_args c)" if "\<exists>p q. flag = p @ ''52'' @ q" for flag
  proof -
    from that have "py_in ''52'' flag" by (simp add: py_in_iff)
    then show ?thesis using platform_post_args_no_52 [of flag True "platform os"]
      by (auto simp: pa)
  qed
  have kept: "flag \<in> set (post_args c)"
    if "flag \<in> set assembled" and "\<not> (\<exists>p q. flag = p @ ''52'' @ q)" for flag
    using that by (simp add: pa assembled_def py_in_iff)
  from out pa dropped kept show ?thesis
    unfolding assembled_def assembled_for_def by blast
qed

lemma run_cuda_110_half:
  "locate_cuda True host_cuda_110 =
     ([Print_cuda_ver 11 0,
       Print_nvcc_post_args
        [''-arch=sm_52'', ''-gencode=arch=compute_52,code=sm_52'',
         ''-gencode=arch=compute_60,code=sm_60'', ''-gencode=arch=compute_61,code=sm_61'',
         ''-gencode=arch=compute_70,code=sm_70'', ''-gencode=arch=compute_75,code=sm_75'',
         ''-gencode=arch=compute_80,code=sm_80'',
         ''-gencode=arch=compute_80,code=compute_80'', ''--ptxas-options=-v'', ''-O2'']],
      Inr (Some
        \<lparr>home = ''/usr/local/cuda-11.0'', nvcc = ''/usr/local/cuda-11.0/bin/nvcc'',
         include_dir = ''/usr/local/cuda-11.0/include'',
         lib64 = ''/usr/local/cuda-11.0/lib64'',
         post_args =
           [''-gencode=arch=compute_60,code=sm_60'', ''-gencode=arch=compute_61,code=sm_61'',
            ''-gencode=arch=compute_70,code=sm_70'', ''-gencode=arch=compute_75,code=sm_75'',
            ''-gencode=arch=compute_80,code=sm_80'',
            ''-gencode=arch=compute_80,code=compute_80'', ''--ptxas-options=-v'', ''-O2'',
            ''-c'', ''--compiler-options'', single_quoted ''-fPIC'',
            ''--compiler-options'', single_quoted ''-std=c++14'',
            ''--compiler-options'', single_quoted ''-D HALF_PRECISION'']\<rparr>))"
  by code_simp

theorem half_precision_drops_52_witness:
  "\<exists>out c.
     locate_cuda True host_cuda_110 = (out, Inr (Some c))
   \<and> out = [Print_cuda_ver 11 0,
       Print_nvcc_post_args
        [''-arch=sm_52'', ''-gencode=arch=compute_52,code=sm_52'',
         ''-gencode=arch=compute_60,code=sm_60'', ''-gencode=arch=compute_61,code=sm_61'',
         ''-gencode=arch=compute_70,code=sm_70'', ''-gencode=arch=compute_75,code=sm_75'',
         ''-gencode=arch=compute_80,code=sm_80'',
         ''-gencode=arch=compute_80,code=compute_80'', ''--ptxas-options=-v'', ''-O2'']]
   \<and> ''-arch=sm_52'' \<notin> set (post_args c)
   \<and> ''-gencode=arch=compute_52,code=sm_52'' \<notin> set (post_args c)
   \<and> ''-gencode=arch=compute_60,code=sm_60'' \<in> set (post_args c)
   \<and> ''-O2'' \<in> set (post_args c)"
proof -
  obtain out c where run: "locate_cuda True host_cuda_110 = (out, Inr (Some c))"
    by (simp add: run_cuda_110_half)
  from half_precision_drops_52 [OF run] obtain major minor assembled where
    shown: "out = [Print_cuda_ver major minor, Print_nvcc_post_args assembled]"
    and dropped: "\<forall>flag \<in> set assembled.
               (\<exists>p q. flag = p @ ''52'' @ q) \<longrightarrow> flag \<notin> set (post_args c)"
    and kept: "\<forall>flag \<in> set assembled.
               \<not> (\<exists>p q. flag = p @ ''52'' @ q) \<longrightarrow> flag \<in> set (post_args c)"
    by blast
  from run shown have out: "out = [Print_cuda_ver 11 0,
       Print_nvcc_post_args
        [''-arch=sm_52'', ''-gencode=arch=compute_52,code=sm_52'',
         ''-gencode=arch=compute_60,code=sm_60'', ''-gencode=arch=compute_61,code=sm_61'',
         ''-gencode=arch=compute_70,code=sm_70'', ''-gencode=arch=compute_75,code=sm_75'',
         ''-gencode=arch=compute_80,code=sm_80'',
         ''-gencode=arch=compute_80,code=compute_80'', ''--ptxas-options=-v'', ''-O2'']]"
    by (simp add: run_cuda_110_half)
  with shown have assembled: "assembled =
        [''-arch=sm_52'', ''-gencode=arch=compute_52,code=sm_52'',
         ''-gencode=arch=compute_60,code=sm_60'', ''-gencode=arch=compute_61,code=sm_61'',
         ''-gencode=arch=compute_70,code=sm_70'', ''-gencode=arch=compute_75,code=sm_75'',
         ''-gencode=arch=compute_80,code=sm_80'',
         ''-gencode=arch=compute_80,code=compute_80'', ''--ptxas-options=-v'', ''-O2'']"
    by simp
  have has1: "\<exists>p q. ''-arch=sm_52'' = p @ ''52'' @ q"
    unfolding py_in_iff [symmetric] by simp
  have has2: "\<exists>p q. ''-gencode=arch=compute_52,code=sm_52'' = p @ ''52'' @ q"
    unfolding py_in_iff [symmetric] by simp
  have not1: "\<not> (\<exists>p q. ''-gencode=arch=compute_60,code=sm_60'' = p @ ''52'' @ q)"
    unfolding py_in_iff [symmetric] by simp
  have not2: "\<not> (\<exists>p q. ''-O2'' = p @ ''52'' @ q)"
    unfolding py_in_iff [symmetric] by simp
  from dropped has1 have d1: "''-arch=sm_52'' \<notin> set (post_args c)"
    unfolding assembled by simp
  from dropped has2 have d2: "''-gencode=arch=compute_52,code=sm_52'' \<notin> set (post_args c)"
    unfolding assembled by simp
  from kept not1 have k1: "''-gencode=arch=compute_60,code=sm_60'' \<in> set (post_args c)"
    unfolding assembled by simp
  from kept not2 have k2: "''-O2'' \<in> set (post_args c)"
    unfolding assembled by simp
  from run out d1 d2 k1 k2 show ?thesis by blast
qed

text \<open>
  C10. Version parsing is partial. With \<open>CUDA_HOME=/opt/cuda\<close> the base name has no
  hyphen, the \<open>except\<close> branch splits it on the dot, and \<open>int('cuda')\<close> raises
  \<open>ValueError\<close>; with \<open>CUDA_HOME=/usr/local/cuda-11\<close> the hyphen split succeeds and
  \<open>cuda_ver[1]\<close> raises \<open>IndexError\<close>. Both exceptions leave \<open>locate_cuda\<close>: nothing is
  logged and nothing is returned.
\<close>

theorem version_parsing_raises:
  "locate_cuda False host_opt_cuda = ([], Inl ValueError)
   \<and> locate_cuda False host_cuda_11 = ([], Inl IndexError)"
  by code_simp

text \<open>No handler stands between line 143 and the caller of \<open>locate_cuda\<close>.\<close>

lemma parse_failure_propagates:
  assumes "discover os (nvcc_bin os) = Inr (Some (h, nv))"
    and "major_minor (cuda_ver_fields os h) = Inl e"
  shows "locate_cuda hp os = ([], Inl e)"
  using assms by (simp add: locate_cuda_def)


section \<open>Properties of the dispatcher\<close>

lemma is_cu_kernel: "snd (path_splitext host_cuda_110 (src kernel_args)) = ''.cu''"
  by code_simp

lemma is_not_cu_host: "snd (path_splitext host_cuda_110 (src host_args)) \<noteq> ''.cu''"
  by code_simp

text \<open>
  C4. For a source whose extension is \<open>.cu\<close>, once \<open>set_executable('compiler_so', nvcc)\<close>
  has returned, the standard compile step runs on the object it left, with the configured
  \<open>post_args\<close> in place of \<open>extra_postargs\<close> and every other argument as given; its result
  is the result of the dispatch. For any other extension the dispatch is the standard
  compile step on the same object and the same arguments.
\<close>

theorem compile_dispatch:
  "(snd (path_splitext os (src a)) = ''.cu''
      \<and> set_executable lib ''compiler_so'' (nvcc CUDA) self = (s1, Inr ())
    \<longrightarrow> cuda_compile os lib CUDA self a
          = ((fst (UnixCCompiler_compile lib s1 (a\<lparr>extra_postargs := post_args CUDA\<rparr>)))
               \<lparr>compiler_so := compiler_so self\<rparr>,
             snd (UnixCCompiler_compile lib s1 (a\<lparr>extra_postargs := post_args CUDA\<rparr>))))
   \<and> (snd (path_splitext os (src a)) \<noteq> ''.cu''
    \<longrightarrow> cuda_compile os lib CUDA self a = UnixCCompiler_compile lib self a)"
  by (simp add: cuda_compile_def Let_def)

theorem compile_dispatch_witness:
  "snd (path_splitext host_cuda_110 (src kernel_args)) = ''.cu''
   \<and> set_executable recording_distutils ''compiler_so'' (nvcc demo_config) gcc_compiler
       = (gcc_compiler\<lparr>compiler_so := [''/usr/local/cuda-11.0/bin/nvcc'']\<rparr>, Inr ())
   \<and> cuda_compile host_cuda_110 recording_distutils demo_config gcc_compiler kernel_args
       = (\<lparr>compiler_so = [''gcc'', ''-fPIC''],
           attrs = [[''/usr/local/cuda-11.0/bin/nvcc'', ''-Iinclude'', ''cpp/src/kernel.cu'',
                     ''-o'', ''build/kernel.o'',
                     ''-arch=sm_52'', ''--ptxas-options=-v'', ''-O2'', ''-c'']]\<rparr>, Inr ())
   \<and> snd (path_splitext host_cuda_110 (src host_args)) \<noteq> ''.cu''
   \<and> cuda_compile host_cuda_110 recording_distutils demo_config gcc_compiler host_args
       = (\<lparr>compiler_so = [''gcc'', ''-fPIC''],
           attrs = [[''gcc'', ''-fPIC'', ''-Iinclude'', ''cpp/src/bind.cc'',
                     ''-o'', ''build/bind.o'', ''-O3'']]\<rparr>, Inr ())"
proof -
  have set_exe:
    "set_executable recording_distutils ''compiler_so'' (nvcc demo_config) gcc_compiler
       = (gcc_compiler\<lparr>compiler_so := [''/usr/local/cuda-11.0/bin/nvcc'']\<rparr>, Inr ())"
    by (simp add: recording_distutils_def store_executable_def demo_config_def)
  note kernel = compile_dispatch [of host_cuda_110 kernel_args recording_distutils demo_config
      gcc_compiler "gcc_compiler\<lparr>compiler_so := [''/usr/local/cuda-11.0/bin/nvcc'']\<rparr>",
      THEN conjunct1, rule_format, OF conjI, OF is_cu_kernel set_exe]
  note other = compile_dispatch [of host_cuda_110 host_args recording_distutils demo_config
      gcc_compiler, THEN conjunct2, rule_format, OF is_not_cu_host]
  have k: "cuda_compile host_cuda_110 recording_distutils demo_config gcc_compiler kernel_args
       = (\<lparr>compiler_so = [''gcc'', ''-fPIC''],
           attrs = [[''/usr/local/cuda-11.0/bin/nvcc'', ''-Iinclude'', ''cpp/src/kernel.cu'',
                     ''-o'', ''build/kernel.o'',
                     ''-arch=sm_52'', ''--ptxas-options=-v'', ''-O2'', ''-c'']]\<rparr>, Inr ())"
    unfolding kernel
    by (simp add: recording_distutils_def spawn_line_def gcc_compiler_def kernel_args_def
        demo_config_def)
  have h: "cuda_compile host_cuda_110 recording_distutils demo_config gcc_compiler host_args
       = (\<lparr>compiler_so = [''gcc'', ''-fPIC''],
           attrs = [[''gcc'', ''-fPIC'', ''-Iinclude'', ''cpp/src/bind.cc'',
                     ''-o'', ''build/bind.o'', ''-O3'']]\<rparr>, Inr ())"
    unfolding other
    by (simp add: recording_distutils_def spawn_line_def gcc_compiler_def host_args_def)
  from is_cu_kernel set_exe k is_not_cu_host h show ?thesis by blast
qed

text \<open>
  C5. After the dispatch of a \<open>.cu\<close> source, \<open>compiler_so\<close> is what it was before the
  dispatch, whatever \<open>set_executable\<close> and the standard compile step do to the object and
  whether they return or raise.
\<close>

theorem compiler_so_restored:
  assumes "snd (path_splitext os (src a)) = ''.cu''"
  shows "compiler_so (fst (cuda_compile os lib CUDA self a)) = compiler_so self"
  using assms by (simp add: cuda_compile_def Let_def)

lemma kernel_compile_fails:
  "snd (cuda_compile host_cuda_110 failing_distutils demo_config gcc_compiler kernel_args)
     = Inl (OtherError ''CompileError'')"
  by code_simp

lemma kernel_compile_succeeds:
  "snd (cuda_compile host_cuda_110 recording_distutils demo_config gcc_compiler kernel_args)
     = Inr ()"
  by code_simp

theorem compiler_so_restored_witness:
  "snd (path_splitext host_cuda_110 (src kernel_args)) = ''.cu''
   \<and> snd (cuda_compile host_cuda_110 failing_distutils demo_config gcc_compiler kernel_args)
       = Inl (OtherError ''CompileError'')
   \<and> compiler_so
        (fst (cuda_compile host_cuda_110 failing_distutils demo_config gcc_compiler kernel_args))
       = [''gcc'', ''-fPIC'']
   \<and> snd (cuda_compile host_cuda_110 recording_distutils demo_config gcc_compiler kernel_args)
       = Inr ()
   \<and> compiler_so
        (fst (cuda_compile host_cuda_110 recording_distutils demo_config gcc_compiler
                kernel_args))
       = [''gcc'', ''-fPIC'']"
  using compiler_so_restored [OF is_cu_kernel, of failing_distutils demo_config gcc_compiler]
    compiler_so_restored [OF is_cu_kernel, of recording_distutils demo_config gcc_compiler]
    is_cu_kernel kernel_compile_fails kernel_compile_succeeds
  by (simp add: gcc_compiler_def)

text \<open>The two branches of the handler in \<open>_wrap_new_compiler\<close>, for any wrapped function.\<close>

lemma unix_selection:
  assumes "plat \<noteq> ''win32''"
    and "new_compiler st args kwargs = Inl DistutilsPlatformError"
    and "kwargs ''dry_run'' = Some d" and "kwargs ''force'' = Some f"
  shows "new_compiler (CudaBuildExt_run plat (Some cfg) st) args kwargs
           = Inr (Cuda_UnixCCompiler PNone d f)"
  using assms by (simp add: CudaBuildExt_run_def wrap_new_compiler_def)

lemma windows_selection:
  assumes "new_compiler st args kwargs = Inl DistutilsPlatformError"
  shows "new_compiler (CudaBuildExt_run ''win32'' (Some cfg) st) args kwargs
           = Inl (NameError ''_MSVCCompiler'')"
  using assms by (simp add: CudaBuildExt_run_def wrap_new_compiler_def)

text \<open>
  C8. With a configuration present, \<open>run\<close> installs the wrapper, and a call of
  \<open>new_compiler\<close> for the compiler type \<open>nvidia\<close> is answered by \<open>_UnixCCompiler\<close> on a
  platform other than \<open>win32\<close>. On \<open>win32\<close> the same call raises \<open>NameError\<close>: the module
  names \<open>_MSVCCompiler\<close> and does not define it, so no Windows variant is installed.
\<close>

theorem windows_selection_raises:
  "new_compiler
     (CudaBuildExt_run ''win32'' (Some demo_config)
        \<lparr>new_compiler = stock_new_compiler, compiler = None\<rparr>) [] build_ext_kwargs
     = Inl (NameError ''_MSVCCompiler'')
   \<and> new_compiler
     (CudaBuildExt_run ''linux'' (Some demo_config)
        \<lparr>new_compiler = stock_new_compiler, compiler = None\<rparr>) [] build_ext_kwargs
     = Inr (Cuda_UnixCCompiler PNone (PBool False) (PBool False))"
  by (simp add: CudaBuildExt_run_def wrap_new_compiler_def stock_new_compiler_def
      build_ext_kwargs_def)

end
